theory Spec2Isabelle
  imports Complex_Main "HOL-Library.Word"
begin

section \<open>Characters, strings and messages\<close>

text \<open>
  A JavaScript string is modelled as a \<^typ>\<open>string\<close>: one \<^typ>\<open>char\<close> per character, so the
  alphabet of the model is the code points 0 to 255. On this alphabet iterating a string by
  code point, \<open>length\<close>, \<open>slice\<close> and \<open>trim\<close> all count the same units.

  Error messages leave that alphabet: \<open>repr\<close> decorates text with U+202F and U+2026. A message
  is therefore a list of code units, written as naturals.
\<close>

type_synonym message = "nat list"

definition msg :: "string \<Rightarrow> message" where
  "msg s = map of_char s"

definition isDigit :: "char \<Rightarrow> bool" where
  "isDigit c \<longleftrightarrow> (48::nat) \<le> of_char c \<and> of_char c \<le> (57::nat)"

definition isUpper :: "char \<Rightarrow> bool" where
  "isUpper c \<longleftrightarrow> (65::nat) \<le> of_char c \<and> of_char c \<le> (90::nat)"

definition isLower :: "char \<Rightarrow> bool" where
  "isLower c \<longleftrightarrow> (97::nat) \<le> of_char c \<and> of_char c \<le> (122::nat)"

text \<open>The class \<open>\s\<close> of a JavaScript regular expression, which is also what \<open>trim\<close> removes,
  on the alphabet of the model: TAB, LF, VT, FF, CR, space and U+00A0.\<close>

definition isSpace :: "char \<Rightarrow> bool" where
  "isSpace c \<longleftrightarrow> c \<in> {CHR 0x09, CHR 0x0A, CHR 0x0B, CHR 0x0C, CHR 0x0D, CHR 0x20, CHR 0xA0}"

definition trim :: "string \<Rightarrow> string" where
  "trim s = rev (dropWhile isSpace (rev (dropWhile isSpace s)))"

text \<open>\<open>toUpperCase\<close> and \<open>toLowerCase\<close> on the ASCII letters. The code applies them to the names
  of token classes, to the text of keywords and, for the keyword lookup, to raw input: there a
  character outside ASCII is mapped by JavaScript to text outside ASCII or to \<open>SS\<close>, and by the
  model to itself, and neither can complete one of the ASCII keywords.\<close>

definition toUpperChar :: "char \<Rightarrow> char" where
  "toUpperChar c = (if isLower c then char_of (of_char c - (32::nat)) else c)"

definition toLowerChar :: "char \<Rightarrow> char" where
  "toLowerChar c = (if isUpper c then char_of (of_char c + (32::nat)) else c)"

definition toUpperCase :: "string \<Rightarrow> string" where
  "toUpperCase s = map toUpperChar s"

definition toLowerCase :: "string \<Rightarrow> string" where
  "toLowerCase s = map toLowerChar s"

text \<open>\<open>s.replace(/c/g, rep)\<close> for a single character \<open>c\<close>.\<close>

definition replaceAll :: "'a \<Rightarrow> 'a list \<Rightarrow> 'a list \<Rightarrow> 'a list" where
  "replaceAll c rep s = concat (map (\<lambda>x. if x = c then rep else [x]) s)"

text \<open>\<open>xs.join(sep)\<close>.\<close>

fun joinWith :: "'a list \<Rightarrow> 'a list list \<Rightarrow> 'a list" where
  "joinWith sep [] = []"
| "joinWith sep [x] = x"
| "joinWith sep (x # y # ys) = x @ sep @ joinWith sep (y # ys)"

text \<open>The decimal text of a natural number, as a template literal prints an integer.\<close>

fun showNat :: "nat \<Rightarrow> string" where
  "showNat n = (if n < 10 then [char_of (48 + n)] else showNat (n div 10) @ [char_of (48 + n mod 10)])"

definition DELIMITERS :: string where
  "DELIMITERS = [CHR ''='', CHR 0x0A, CHR '';'', CHR '','', CHR ''('', CHR '')'', CHR ''['', CHR '']'',
                 CHR ''{'', CHR ''}'', CHR ''#'']"

section \<open>Errors\<close>

text \<open>
  \<open>ConfigError\<close> carries its message. \<open>CircularReference a\<close> is the \<open>ConfigError\<close> whose message is
  \<open>circular reference to\<close> followed by \<open>repr\<close> of the object at address \<open>a\<close>; the text that
  JavaScript prints for an object is not modelled. \<open>InvalidInput a\<close> is, in the same way, the
  \<open>ConfigError\<close> that \<open>iterOverMap\<close> raises on an input that is an array. \<open>TypeError\<close> is the error
  the engine raises itself, for example on reading a property of \<open>undefined\<close>.
\<close>

datatype error = ConfigError message | CircularReference nat | InvalidInput nat | TypeError

text \<open>\<open>repr\<close> of a string, with its \<open>maxLength\<close> (60 unless the caller says otherwise).\<close>

definition repr :: "nat \<Rightarrow> string \<Rightarrow> message" where
  "repr maxLength s =
     (let v0 = [0xAB, 0x202F] @ msg s @ [0x202F, 0xBB];
          v1 = foldl (\<lambda>v (c, code). replaceAll c [0x5C, code] v) v0
                 [(0x5C, 0x5C), (0x0D, of_char CHR ''r''), (0x0A, of_char CHR ''n''),
                  (0x09, of_char CHR ''t''), (0x0C, of_char CHR ''f''), (0x0B, of_char CHR ''v'')]
      in if length v1 > maxLength
         then take maxLength v1 @ [0x2026] @ msg '' [+'' @ msg (showNat (length v1 - maxLength))
              @ msg '']'' @ [0x202F, 0xBB]
         else v1)"

section \<open>The value model\<close>

text \<open>A number is a finite real (the model has no rounding and no negative zero), NaN or an
  infinity. A date is its time value, milliseconds since the epoch.\<close>

datatype jsnum = Fin real | NaN | PosInf | NegInf

datatype scalar = Str string | Num jsnum | Date int | Bool bool | Null | Undefined

datatype jsvalue = Scalar scalar | Arr "jsvalue list" | Tab "(string \<times> jsvalue) list"

type_synonym table = "(string \<times> jsvalue) list"

text \<open>\<open>Map.prototype.set\<close>: an existing key keeps its position and takes the new value, a new
  key is appended.\<close>

fun mapSet :: "('k \<times> 'v) list \<Rightarrow> 'k \<Rightarrow> 'v \<Rightarrow> ('k \<times> 'v) list" where
  "mapSet [] k v = [(k, v)]"
| "mapSet ((k', v') # m) k v = (if k' = k then (k, v) # m else (k', v') # mapSet m k v)"

text \<open>\<open>sign * number\<close> for \<open>sign = -1\<close>.\<close>

fun negate :: "jsnum \<Rightarrow> jsnum" where
  "negate (Fin x) = Fin (- x)"
| "negate NaN = NaN"
| "negate PosInf = NegInf"
| "negate NegInf = PosInf"

section \<open>The platform\<close>

text \<open>
  What the code takes from the JavaScript engine and its environment, and the model takes as
  a parameter:
  \<^item> \<open>Number(text)\<close>;
  \<^item> the text of a finite number in a template literal;
  \<^item> \<open>new Date(y, m, d, h, min, s, ms)\<close> in local time and \<open>Date.UTC\<close> of the same seven fields,
  as time values;
  \<^item> the seven \<open>getUTC...\<close> fields of a time value (the month counted from zero);
  \<^item> \<open>getTimezoneOffset()\<close> of a time value, in minutes;
  \<^item> \<open>TextDecoder("utf-8")\<close>: a decoder is the bytes it has been fed so far, \<open>decoderEmit h b\<close>
    is the text that comes out when the byte \<open>b\<close> arrives after the bytes \<open>h\<close>, and
    \<open>decoderFlush h\<close> the text that the final \<open>decode()\<close> adds after the bytes \<open>h\<close>.
\<close>

type_synonym byte = "8 word"

type_synonym fields = "int \<times> int \<times> int \<times> int \<times> int \<times> int \<times> int"

record platform =
  Number :: "string \<Rightarrow> jsnum"
  numberToString :: "real \<Rightarrow> string"
  dateLocal :: "fields \<Rightarrow> int"
  dateUTC :: "fields \<Rightarrow> int"
  utcFields :: "int \<Rightarrow> fields"
  timezoneOffset :: "int \<Rightarrow> int"
  decoderEmit :: "byte list \<Rightarrow> byte \<Rightarrow> string"
  decoderFlush :: "byte list \<Rightarrow> string"

section \<open>The tokenizer\<close>

text \<open>
  The generator of characters is the list of characters not yet consumed; every function that
  pulls from it returns what is left. A one-character string that may be empty (\<open>start\<close>,
  the delimiter that \<open>matchUntil\<close> returns) is a \<^typ>\<open>char option\<close>, \<open>None\<close> for the empty
  string, which is what the code tests with \<open>start ? ... : ...\<close>.
\<close>

fun matchUntilLoop :: "string \<Rightarrow> bool \<Rightarrow> string \<Rightarrow> string \<Rightarrow> string \<times> (char \<times> string) option" where
  "matchUntilLoop delimiters isEscaped result [] = (result, None)"
| "matchUntilLoop delimiters isEscaped result (character # characters) =
     (if isEscaped then matchUntilLoop delimiters False (result @ [character]) characters
      else if character = CHR 0x5C then matchUntilLoop delimiters True result characters
      else if character \<in> set delimiters then (result, Some (character, characters))
      else matchUntilLoop delimiters False (result @ [character]) characters)"

text \<open>\<open>matchUntil(characters, delimiters, {endOfInput, start})\<close>: a \<open>start\<close> character is looked
  at before the generator is pulled.\<close>

definition matchUntil ::
  "string \<Rightarrow> bool \<Rightarrow> char option \<Rightarrow> string \<Rightarrow> error + (string \<times> char option) \<times> string" where
  "matchUntil delimiters endOfInput start characters =
     (case matchUntilLoop delimiters False []
             (case start of Some c \<Rightarrow> c # characters | None \<Rightarrow> characters) of
        (result, Some (character, rest)) \<Rightarrow> Inr ((result, Some character), rest)
      | (result, None) \<Rightarrow>
          if \<not> endOfInput
          then Inl (ConfigError
                 (if length delimiters = 1
                  then msg ''delimiter '' @ repr 60 delimiters @ msg '' expected but end of input reached''
                  else msg ''delimiter expected but end of input reached''))
          else Inr ((result, None), []))"

datatype token = KEY | VALUE | LIST_DIVIDER | LIST_DELIMITER | NEW_LINE | END_OF_INPUT | UNKNOWN

fun tokenName :: "token \<Rightarrow> string" where
  "tokenName KEY = ''KEY''"
| "tokenName VALUE = ''VALUE''"
| "tokenName LIST_DIVIDER = ''LIST_DIVIDER''"
| "tokenName LIST_DELIMITER = ''LIST_DELIMITER''"
| "tokenName NEW_LINE = ''NEW_LINE''"
| "tokenName END_OF_INPUT = ''END_OF_INPUT''"
| "tokenName UNKNOWN = ''UNKNOWN''"

definition checkMatch :: "token list \<Rightarrow> string \<Rightarrow> char option \<Rightarrow> token \<Rightarrow> error + unit" where
  "checkMatch expected characters character type =
     (if type \<in> set expected then Inr ()
      else
        let names = map tokenName expected;
            expected1 = (if length names > 1
                         then joinWith '', '' (butlast names) @ '' or '' @ last names
                         else joinWith '','' names);
            expected2 = toLowerCase (replaceAll CHR ''_'' '' '' expected1);
            type2 = toLowerCase (replaceAll CHR ''_'' '' '' (tokenName type))
        in case matchUntil [CHR ''#'', CHR 0x0A] True character characters of
             Inl e \<Rightarrow> Inl e
           | Inr ((text, _), _) \<Rightarrow>
               let reached = trim text;
                   message = (if type2 = ''unknown'' then repr 20 reached @ msg '' reached''
                              else if reached = [] then msg type2 @ msg '' reached''
                              else msg type2 @ msg '' '' @ repr 20 reached @ msg '' reached'')
               in Inl (ConfigError (msg expected2 @ msg '' expected but '' @ message)))"


section \<open>Keys and scalar values\<close>

datatype level = FIRST_LEVEL | HIGHER_LEVEL

text \<open>A result of the matchers is the triple \<open>[value, end, type]\<close>; a key and the empty text of
  a separator are the JavaScript strings they are.\<close>

type_synonym matched = "jsvalue \<times> char option \<times> token"

text \<open>\<open>`${x}`\<close> for a one-character string that may be empty.\<close>

definition optText :: "char option \<Rightarrow> string" where
  "optText c = (case c of None \<Rightarrow> [] | Some x \<Rightarrow> [x])"

definition matchKey :: "string \<Rightarrow> char \<Rightarrow> level \<Rightarrow> error + matched \<times> string" where
  "matchKey characters start level =
     (case matchUntil DELIMITERS True None characters of
        Inl e \<Rightarrow> Inl e
      | Inr ((match0, match1), rest) \<Rightarrow>
          if start = CHR ''[''
          then if level \<noteq> FIRST_LEVEL
               then Inl (ConfigError (msg ''key '' @ repr 60 ([start] @ trim match0 @ optText match1)
                           @ msg '' invalid '' @ msg ''(repr([...]) syntax only at first level)''))
               else if match1 \<noteq> Some CHR '']''
               then (case matchUntil [CHR ''#'', CHR 0x0A] True match1 rest of
                       Inl e \<Rightarrow> Inl e
                     | Inr ((text, _), _) \<Rightarrow>
                         Inl (ConfigError (msg ''key '' @ repr 60 ([start] @ trim match0 @ optText match1)
                                @ msg '' invalid '' @ msg ''('' @ repr 60 '']'' @ msg '' expected but ''
                                @ repr 20 (trim text) @ msg '' reached'')))
               else if match0 = []
               then Inl (ConfigError (msg ''key '' @ repr 60 ([start] @ optText match1) @ msg '' invalid (blank)''))
               else Inr ((Scalar (Str match0), match1, KEY), rest)
          else let key = trim (start # match0)
               in if key = []
                  then Inl (ConfigError (msg ''key '' @ repr 60 (optText match1) @ msg '' invalid (blank)''))
                  else Inr ((Scalar (Str key), match1, KEY), rest))"

definition matchString :: "string \<Rightarrow> char \<Rightarrow> error + matched \<times> string" where
  "matchString characters delimiter =
     (case matchUntil [delimiter] False None characters of
        Inl e \<Rightarrow> Inl e
      | Inr ((match0, _), rest) \<Rightarrow> Inr ((Scalar (Str match0), None, VALUE), rest))"

definition keywordTable :: "(string \<times> scalar) list" where
  "keywordTable = [(''TRUE'', Bool True), (''FALSE'', Bool False), (''NULL'', Null),
                   (''INF'', Num PosInf), (''INFINITY'', Num PosInf),
                   (''NA'', Num NaN), (''NAN'', Num NaN), (''N/A'', Num NaN)]"

definition matchKeyword :: "string \<Rightarrow> char \<Rightarrow> error + matched \<times> string" where
  "matchKeyword characters start =
     (case matchUntil DELIMITERS True None characters of
        Inl e \<Rightarrow> Inl e
      | Inr ((raw0, endc), rest) \<Rightarrow>
          (case map_of keywordTable (toUpperCase (trim (start # raw0))) of
             Some keyword \<Rightarrow> Inr ((Scalar keyword, endc, VALUE), rest)
           | None \<Rightarrow> Inl (ConfigError (msg ''keyword '' @ repr 60 (trim (start # raw0)) @ msg '' invalid''))))"

subsection \<open>The regular expression of dates\<close>

text \<open>
  A backtracking matcher for the fragment of regular expressions that \<open>matchDate\<close> uses:
  character classes, sequence, alternative (left first), the greedy \<open>?\<close> (whose body must
  consume something, as the language requires of an optional iteration), the greedy \<open>*\<close> of a
  class, and capture groups. The continuation is what follows in the pattern.
\<close>

datatype rx = Emp | Cls "char \<Rightarrow> bool" | Cat rx rx | Alt rx rx | Opt rx | Star "char \<Rightarrow> bool" | Grp nat rx

type_synonym captures = "nat \<Rightarrow> string option"

fun rxMatch :: "rx \<Rightarrow> (string \<Rightarrow> captures \<Rightarrow> captures option) \<Rightarrow> string \<Rightarrow> captures \<Rightarrow> captures option" where
  "rxMatch Emp k s c = k s c"
| "rxMatch (Cls p) k s c = (case s of [] \<Rightarrow> None | x # xs \<Rightarrow> if p x then k xs c else None)"
| "rxMatch (Cat a b) k s c = rxMatch a (\<lambda>s' c'. rxMatch b k s' c') s c"
| "rxMatch (Alt a b) k s c = (case rxMatch a k s c of Some r \<Rightarrow> Some r | None \<Rightarrow> rxMatch b k s c)"
| "rxMatch (Opt a) k s c =
     (case rxMatch a (\<lambda>s' c'. if length s' = length s then None else k s' c') s c of
        Some r \<Rightarrow> Some r
      | None \<Rightarrow> k s c)"
| "rxMatch (Star p) k s c =
     (case s of
        [] \<Rightarrow> k s c
      | x # xs \<Rightarrow> if p x then (case rxMatch (Star p) k xs c of Some r \<Rightarrow> Some r | None \<Rightarrow> k s c)
                  else k s c)"
| "rxMatch (Grp i a) k s c = rxMatch a (\<lambda>s' c'. k s' (c'(i \<mapsto> take (length s - length s') s))) s c"

definition cats :: "rx list \<Rightarrow> rx" where
  "cats rs = foldr Cat rs Emp"

definition chr :: "char \<Rightarrow> rx" where
  "chr x = Cls (\<lambda>c. c = x)"

text \<open>A letter under the flag \<open>i\<close>.\<close>

definition chrI :: "char \<Rightarrow> rx" where
  "chrI x = Cls (\<lambda>c. toUpperChar c = toUpperChar x)"

definition digit :: rx where
  "digit = Cls isDigit"

definition datePattern :: rx where
  "datePattern = Grp 1 (Alt (cats [digit, digit, digit, digit, chr CHR ''-'', digit, digit, chr CHR ''-'', digit, digit])
                            (cats [digit, digit, digit, digit, chr CHR ''/'', digit, digit, chr CHR ''/'', digit, digit]))"

definition timePattern :: rx where
  "timePattern = Grp 3 (cats [digit, digit, chr CHR '':'', digit, digit,
                   Opt (Grp 4 (cats [chr CHR '':'', digit, digit,
                     Opt (Grp 5 (cats [chr CHR ''.'', digit, Star isDigit]))]))])"

definition offsetPattern :: rx where
  "offsetPattern = cats [Opt (cats [chrI CHR ''U'', chrI CHR ''T'', chrI CHR ''C'']), Star (\<lambda>c. c = CHR '' ''),
                     Opt (Grp 6 (cats [Cls (\<lambda>c. c = CHR ''+'' \<or> c = CHR ''-''), Star (\<lambda>c. c = CHR '' ''),
                       Alt (cats [digit, digit, chr CHR '':'', digit, digit]) (cats [digit, Opt digit])]))]"

text \<open>The whole pattern, between \<open>^\<close> and \<open>$\<close>:
  \<^verbatim>\<open>^${datePattern}((?:T| *)${timePatterm}?)? *${offsetPattern}?$\<close>. The \<open>?\<close> that follows
  \<open>${offsetPattern}\<close> binds to the group that ends it.\<close>

definition dateRegex :: rx where
  "dateRegex = cats [datePattern,
                 Opt (Grp 2 (cats [Alt (chrI CHR ''T'') (Star (\<lambda>c. c = CHR '' '')), Opt timePattern])),
                 Star (\<lambda>c. c = CHR '' ''), offsetPattern]"

definition rxExec :: "rx \<Rightarrow> string \<Rightarrow> captures option" where
  "rxExec r s = rxMatch r (\<lambda>s' c. if s' = [] then Some c else None) s (\<lambda>i. None)"


subsection \<open>Dates and numbers\<close>

text \<open>\<open>s.split(sep)\<close> for a separator that is one character of a class.\<close>

fun splitOn :: "(char \<Rightarrow> bool) \<Rightarrow> string \<Rightarrow> string list" where
  "splitOn p [] = [[]]"
| "splitOn p (c # cs) =
     (if p c then [] # splitOn p cs
      else (case splitOn p cs of [] \<Rightarrow> [[c]] | x # xs \<Rightarrow> (c # x) # xs))"

definition digitsValue :: "string \<Rightarrow> nat" where
  "digitsValue s = foldl (\<lambda>n c. 10 * n + (of_char c - 48)) 0 s"

text \<open>\<open>Number(text)\<close> on the texts that the pattern of dates lets through: digits with an
  optional fraction, after optional spaces. The value is exact.\<close>

definition decimal :: "string \<Rightarrow> real" where
  "decimal s =
     (let t = dropWhile isSpace s;
          whole = takeWhile (\<lambda>c. c \<noteq> CHR ''.'') t;
          fraction = drop 1 (dropWhile (\<lambda>c. c \<noteq> CHR ''.'') t)
      in real (digitsValue whole) + real (digitsValue fraction) / 10 ^ length fraction)"

text \<open>An element of a destructured array, with its default.\<close>

definition nthOr :: "'a \<Rightarrow> 'a list \<Rightarrow> nat \<Rightarrow> 'a" where
  "nthOr d xs i = (if i < length xs then xs ! i else d)"

text \<open>The constructor of \<open>Date\<close> and \<open>Date.UTC\<close> truncate the seconds and the milliseconds
  they are given; the other fields are whole already.\<close>

definition matchDate :: "platform \<Rightarrow> string \<Rightarrow> char option \<Rightarrow> error + matched" where
  "matchDate P raw endc =
     (case rxExec dateRegex raw of
        None \<Rightarrow> Inl (ConfigError (msg ''date '' @ repr 60 raw @ msg '' invalid''))
      | Some m \<Rightarrow>
          let ymd = map decimal (splitOn (\<lambda>c. c = CHR ''-'' \<or> c = CHR ''/'') (case m 1 of Some d \<Rightarrow> d | None \<Rightarrow> []));
              year = nthOr 0 ymd 0; month = nthOr 0 ymd 1; day = nthOr 0 ymd 2;
              hms = map decimal (splitOn (\<lambda>c. c = CHR '':'') (case m 3 of Some t \<Rightarrow> t | None \<Rightarrow> ''00:00:00''));
              h = nthOr 0 hms 0; minute = nthOr 0 hms 1; s = nthOr 0 hms 2
          in if month > 12 \<or> day > 31 \<or> h > 24 \<or> minute > 60 \<or> s > 60
             then Inl (ConfigError (msg ''date '' @ repr 60 raw @ msg '' invalid''))
             else
               let ms = decimal (CHR ''0'' # (case m 5 of Some f \<Rightarrow> f | None \<Rightarrow> ''.0'')) * 1000;
                   fs = (\<lfloor>year\<rfloor>, \<lfloor>month\<rfloor> - 1, \<lfloor>day\<rfloor>, \<lfloor>h\<rfloor>, \<lfloor>minute\<rfloor>, \<lfloor>s\<rfloor>, \<lfloor>ms\<rfloor>)
               in (case m 6 of
                     None \<Rightarrow> Inr (Scalar (Date (dateLocal P fs)), endc, VALUE)
                   | Some offset \<Rightarrow>
                       let hm = map decimal (splitOn (\<lambda>c. c = CHR '':'') (drop 1 offset));
                           msOffset = (\<lfloor>nthOr 0 hm 0\<rfloor> * 60 + \<lfloor>nthOr 0 hm 1\<rfloor>) * 60 * 1000
                       in Inr (Scalar (Date (dateUTC P fs
                                 - (if take 1 offset = ''-'' then - msOffset else msOffset))), endc, VALUE)))"

text \<open>\<open>raw.replace(/c(\d{3})/g, "$1")\<close>: the separator \<open>c\<close> is dropped where three digits follow
  it, and the scan goes on after them.\<close>

fun stripGroup :: "char \<Rightarrow> string \<Rightarrow> string" where
  "stripGroup sep (c # d1 # d2 # d3 # rest) =
     (if c = sep \<and> isDigit d1 \<and> isDigit d2 \<and> isDigit d3
      then d1 # d2 # d3 # stripGroup sep rest
      else c # stripGroup sep (d1 # d2 # d3 # rest))"
| "stripGroup sep cs = cs"

text \<open>The test \<open>raw.search(/[-+:/utc]/i) > -1\<close>.\<close>

definition looksLikeDate :: "string \<Rightarrow> bool" where
  "looksLikeDate raw = list_ex (\<lambda>c. c \<in> set ''-+:/utcUTC'') raw"

definition matchNumber :: "platform \<Rightarrow> string \<Rightarrow> char \<Rightarrow> error + matched \<times> string" where
  "matchNumber P characters start =
     (case matchUntil DELIMITERS True None characters of
        Inl e \<Rightarrow> Inl e
      | Inr ((raw0, endc), rest) \<Rightarrow>
          let sign = (if start = CHR ''-'' then negate else id);
              raw = trim ((if start = CHR ''-'' \<or> start = CHR ''+'' then [] else [start]) @ raw0)
          in if looksLikeDate raw
             then (case matchDate P raw endc of Inl e \<Rightarrow> Inl e | Inr m \<Rightarrow> Inr (m, rest))
             else
               let raw' = stripGroup CHR '' '' (stripGroup CHR ''_'' raw)
               in if toUpperCase raw' \<in> set [''NA'', ''NAN'', ''N/A'']
                  then Inr ((Scalar (Num (sign NaN)), endc, VALUE), rest)
                  else if toUpperCase raw' \<in> set [''INF'', ''INFINITY'']
                  then Inr ((Scalar (Num (sign PosInf)), endc, VALUE), rest)
                  else if Number P raw' = NaN
                  then Inl (ConfigError (msg ''number '' @ repr 60 raw' @ msg '' invalid''))
                  else Inr ((Scalar (Num (sign (Number P raw'))), endc, VALUE), rest))"

section \<open>The grammar\<close>

text \<open>
  \<open>matchNext\<close>, \<open>matchArray\<close> and \<open>matchMap\<close> call each other, and nothing in their text bounds
  the recursion: they are one partial function, \<open>None\<close> standing for a call that does not
  return. A call names the function and carries its arguments; for the two loops these are
  the variables of the loop (\<open>result\<close>, \<open>start\<close>, \<open>expected\<close>), for \<open>matchArray\<close> with the closing
  delimiter. The option \<open>useExtendedMap\<close> is left at its default, so every table is a \<open>Map\<close>.
\<close>

datatype call =
    MatchNext "token list" "level option" "char option" bool
  | MatchArray char "jsvalue list" "char option" "token list"
  | MatchMap table "char option" "token list"

text \<open>The key that a matched key denotes. The first component of a result is a string whenever
  \<open>matchNext\<close> was asked for a key.\<close>

fun keyOf :: "jsvalue \<Rightarrow> string" where
  "keyOf (Scalar (Str k)) = k"
| "keyOf _ = []"

text \<open>The error of a closing delimiter or an assignment character that is not the one
  expected: \<open>reached\<close> is the rest of the line.\<close>

definition reachedError :: "message \<Rightarrow> char option \<Rightarrow> string \<Rightarrow> message \<Rightarrow> error" where
  "reachedError what c characters suffix =
     (case matchUntil [CHR ''#'', CHR 0x0A] True c characters of
        Inl e \<Rightarrow> e
      | Inr ((text, _), _) \<Rightarrow>
          ConfigError (what @ msg ''expected but '' @ repr 20 (trim text) @ msg '' reached'' @ suffix))"

partial_function (option) match :: "platform \<Rightarrow> call \<Rightarrow> string \<Rightarrow> (error + matched \<times> string) option" where
  "match P call characters =
     (case call of
        MatchNext expected entryKey start newLine \<Rightarrow>
          (case (case start of Some c \<Rightarrow> Some (c, characters)
                 | None \<Rightarrow> (case characters of [] \<Rightarrow> None | c # cs \<Rightarrow> Some (c, cs))) of
             None \<Rightarrow>
               (case checkMatch expected characters None END_OF_INPUT of
                  Inl e \<Rightarrow> Some (Inl e)
                | Inr _ \<Rightarrow> Some (Inr ((Scalar (Str []), None, END_OF_INPUT), characters)))
           | Some (c, cs) \<Rightarrow>
               if c = CHR 0x0A \<or> c = CHR ''#'' then
                 (case checkMatch expected cs (Some c) NEW_LINE of
                    Inl e \<Rightarrow> Some (Inl e)
                  | Inr _ \<Rightarrow>
                      (case (if c = CHR ''#'' then matchUntil [CHR 0x0A] True None cs else Inr (([], None), cs)) of
                         Inl e \<Rightarrow> Some (Inl e)
                       | Inr (_, cs') \<Rightarrow>
                           if newLine then Some (Inr ((Scalar (Str []), Some CHR 0x0A, NEW_LINE), cs'))
                           else match P (MatchNext expected entryKey None newLine) cs'))
               else if isSpace c then match P (MatchNext expected entryKey None newLine) cs
               else if c = CHR '','' then
                 (case checkMatch expected cs (Some c) LIST_DIVIDER of
                    Inl e \<Rightarrow> Some (Inl e)
                  | Inr _ \<Rightarrow> Some (Inr ((Scalar (Str []), Some c, LIST_DIVIDER), cs)))
               else if c = CHR '']'' \<or> c = CHR '')'' \<or> c = CHR ''}'' then
                 (case checkMatch expected cs (Some c) LIST_DELIMITER of
                    Inl e \<Rightarrow> Some (Inl e)
                  | Inr _ \<Rightarrow> Some (Inr ((Scalar (Str []), Some c, LIST_DELIMITER), cs)))
               else if entryKey \<noteq> None then
                 (case checkMatch expected cs (Some c) KEY of
                    Inl e \<Rightarrow> Some (Inl e)
                  | Inr _ \<Rightarrow> Some (matchKey cs c (case entryKey of Some l \<Rightarrow> l | None \<Rightarrow> HIGHER_LEVEL)))
               else if c = CHR 0x27 \<or> c = CHR 0x22 then
                 (case checkMatch expected cs (Some c) VALUE of
                    Inl e \<Rightarrow> Some (Inl e)
                  | Inr _ \<Rightarrow> Some (matchString cs c))
               else if isDigit c \<or> c = CHR ''.'' \<or> c = CHR ''+'' \<or> c = CHR ''-'' then
                 (case checkMatch expected cs (Some c) VALUE of
                    Inl e \<Rightarrow> Some (Inl e)
                  | Inr _ \<Rightarrow> Some (matchNumber P cs c))
               else if isLower c \<or> isUpper c \<or> c = CHR ''_'' then
                 (case checkMatch expected cs (Some c) VALUE of
                    Inl e \<Rightarrow> Some (Inl e)
                  | Inr _ \<Rightarrow> Some (matchKeyword cs c))
               else if c = CHR ''['' \<or> c = CHR ''('' then
                 (case checkMatch expected cs (Some c) VALUE of
                    Inl e \<Rightarrow> Some (Inl e)
                  | Inr _ \<Rightarrow>
                      match P (MatchArray (if c = CHR ''['' then CHR '']'' else CHR '')'') [] None
                                 [VALUE, LIST_DELIMITER, NEW_LINE]) cs)
               else if c = CHR ''{'' then
                 (case checkMatch expected cs (Some c) VALUE of
                    Inl e \<Rightarrow> Some (Inl e)
                  | Inr _ \<Rightarrow> match P (MatchMap [] None [KEY, LIST_DELIMITER, NEW_LINE]) cs)
               else
                 (case checkMatch expected cs (Some c) UNKNOWN of
                    Inl e \<Rightarrow> Some (Inl e)
                  | Inr _ \<Rightarrow> Some (Inl TypeError)))
      | MatchArray delimiter result start expected \<Rightarrow>
          Option.bind (match P (MatchNext expected None start False) characters)
            (\<lambda>r. case r of
                Inl e \<Rightarrow> Some (Inl e)
              | Inr ((entry0, entry1, entry2), cs) \<Rightarrow>
                  if entry2 = VALUE
                  then match P (MatchArray delimiter (result @ [entry0]) entry1
                                  [LIST_DIVIDER, LIST_DELIMITER, NEW_LINE]) cs
                  else if entry2 = LIST_DIVIDER
                  then match P (MatchArray delimiter result None [VALUE, LIST_DELIMITER, NEW_LINE]) cs
                  else if entry1 \<noteq> Some delimiter
                  then Some (Inl (reachedError (msg ''end of array '' @ repr 60 [delimiter] @ msg '' '') entry1 cs []))
                  else Some (Inr ((Arr result, None, VALUE), cs)))
      | MatchMap result start expected \<Rightarrow>
          Option.bind (match P (MatchNext expected (Some HIGHER_LEVEL) start False) characters)
            (\<lambda>r. case r of
                Inl e \<Rightarrow> Some (Inl e)
              | Inr ((entryKey0, entryKey1, entryKey2), cs) \<Rightarrow>
                  if entryKey2 = LIST_DIVIDER
                  then match P (MatchMap result None [KEY, LIST_DELIMITER, NEW_LINE]) cs
                  else if entryKey2 = LIST_DELIMITER
                  then if entryKey1 \<noteq> Some CHR ''}''
                       then Some (Inl (reachedError (msg ''end of map '' @ repr 60 ''}'' @ msg '' '') entryKey1 cs []))
                       else Some (Inr ((Tab result, None, VALUE), cs))
                  else if entryKey1 \<noteq> Some CHR ''=''
                  then Some (Inl (reachedError (msg ''assignment character '' @ repr 60 ''='' @ msg '' '') entryKey1 cs []))
                  else Option.bind (match P (MatchNext [VALUE] None None False) cs)
                         (\<lambda>r'. case r' of
                             Inl e \<Rightarrow> Some (Inl e)
                           | Inr ((entryValue0, entryValue1, _), cs') \<Rightarrow>
                               match P (MatchMap (mapSet result (keyOf entryKey0) entryValue0) entryValue1
                                          [LIST_DIVIDER, LIST_DELIMITER, NEW_LINE]) cs')))"


section \<open>The document root\<close>

text \<open>
  \<open>target\<close> is either the root table itself or the table of the section opened last, which
  is the value the root holds under that section's key: only a section header writes to the
  root once a section is open, and it replaces \<open>target\<close> as well. The model keeps the root and
  the key of the open section, and a write to \<open>target\<close> is a write into the root.
\<close>

fun sectionOf :: "table \<Rightarrow> string \<Rightarrow> table" where
  "sectionOf result k = (case map_of result k of Some (Tab t) \<Rightarrow> t | _ \<Rightarrow> [])"

definition targetSet :: "table \<Rightarrow> string option \<Rightarrow> string \<Rightarrow> jsvalue \<Rightarrow> table" where
  "targetSet result target k v =
     (case target of
        None \<Rightarrow> mapSet result k v
      | Some section \<Rightarrow> mapSet result section (Tab (mapSet (sectionOf result section) k v)))"

text \<open>The \<open>catch\<close> of \<open>matchEntries\<close>: a \<open>ConfigError\<close> is raised again with the key of the entry,
  any other error as it is.\<close>

fun atEntry :: "string \<Rightarrow> error \<Rightarrow> error" where
  "atEntry key (ConfigError message) = ConfigError (message @ msg '' at entry '' @ repr 60 key)"
| "atEntry key e = e"

text \<open>The body of the \<open>try\<close>: the value, then the end of its line.\<close>

definition matchEntryValue :: "platform \<Rightarrow> string \<Rightarrow> (error + jsvalue \<times> string) option" where
  "matchEntryValue P characters =
     Option.bind (match P (MatchNext [VALUE] None None False) characters)
       (\<lambda>r. case r of
           Inl e \<Rightarrow> Some (Inl e)
         | Inr ((entryValue0, entryValue1, _), cs) \<Rightarrow>
             if entryValue1 \<noteq> Some CHR 0x0A
             then Option.bind (match P (MatchNext [NEW_LINE, END_OF_INPUT] None entryValue1 True) cs)
                    (\<lambda>r'. case r' of Inl e \<Rightarrow> Some (Inl e) | Inr (_, cs') \<Rightarrow> Some (Inr (entryValue0, cs')))
             else Some (Inr (entryValue0, cs)))"

partial_function (option) matchEntriesLoop ::
  "platform \<Rightarrow> table \<Rightarrow> string option \<Rightarrow> string \<Rightarrow> (error + table) option" where
  "matchEntriesLoop P result target characters =
     Option.bind (match P (MatchNext [KEY, NEW_LINE, END_OF_INPUT] (Some FIRST_LEVEL) None False) characters)
       (\<lambda>r. case r of
           Inl e \<Rightarrow> Some (Inl e)
         | Inr ((entryKey0, entryKey1, entryKey2), cs) \<Rightarrow>
             if entryKey2 = END_OF_INPUT then Some (Inr result)
             else if entryKey1 = Some CHR '']''
             then matchEntriesLoop P (mapSet result (keyOf entryKey0) (Tab [])) (Some (keyOf entryKey0)) cs
             else if entryKey1 \<noteq> Some CHR ''=''
             then Some (Inl (reachedError (msg ''assignment character '' @ repr 60 ''='' @ msg '' '') entryKey1 cs
                               (msg '' at entry '' @ repr 60 (keyOf entryKey0))))
             else Option.bind (matchEntryValue P cs)
                    (\<lambda>r'. case r' of
                        Inl e \<Rightarrow> Some (Inl (atEntry (keyOf entryKey0) e))
                      | Inr (entryValue0, cs') \<Rightarrow>
                          matchEntriesLoop P (targetSet result target (keyOf entryKey0) entryValue0) target cs'))"

definition matchEntries :: "platform \<Rightarrow> string \<Rightarrow> (error + table) option" where
  "matchEntries P characters = matchEntriesLoop P [] None characters"

section \<open>The character source\<close>

datatype chunk = TextChunk string | ByteChunk "byte list"

text \<open>\<open>decoder.decode(chunk, {stream: true})\<close> on a decoder that has been fed \<open>h\<close>: the text, and
  the decoder afterwards.\<close>

fun decodeStream :: "platform \<Rightarrow> byte list \<Rightarrow> byte list \<Rightarrow> string \<times> byte list" where
  "decodeStream P h [] = ([], h)"
| "decodeStream P h (b # bs) =
     (case decodeStream P (h @ [b]) bs of (out, h') \<Rightarrow> (decoderEmit P h b @ out, h'))"

text \<open>\<open>decoder.decode(value)\<close> on a new decoder: all the bytes, then the end of the input.\<close>

definition decodeWhole :: "platform \<Rightarrow> byte list \<Rightarrow> string" where
  "decodeWhole P bs = (case decodeStream P [] bs of (out, h) \<Rightarrow> out @ decoderFlush P h)"

definition generateFrom :: "platform \<Rightarrow> chunk \<Rightarrow> string" where
  "generateFrom P v = (case v of TextChunk s \<Rightarrow> s | ByteChunk bs \<Rightarrow> decodeWhole P bs)"

text \<open>
  The variable \<open>decoder\<close> of \<open>generateFromChunks\<close> is \<open>null\<close>, \<open>false\<close> or a decoder. On a first
  chunk that is a string the code evaluates the comparison \<open>decoder === false\<close> and drops its
  result, so the variable stays \<open>null\<close>.

  The generator is run to its end before the tokenizer starts. A chunk that the generator
  cannot turn into characters (a string handed to \<open>decoder.decode\<close>, bytes yielded as they
  are) is a \<open>TypeError\<close>.
\<close>

datatype decoderVar = DecoderNull | DecoderFalse | Decoder "byte list"

fun generateFromChunksLoop :: "platform \<Rightarrow> decoderVar \<Rightarrow> chunk list \<Rightarrow> error + string" where
  "generateFromChunksLoop P decoder [] =
     (case decoder of Decoder h \<Rightarrow> Inr (decoderFlush P h) | _ \<Rightarrow> Inr [])"
| "generateFromChunksLoop P decoder (chunk # chunks) =
     (case (case decoder of
              DecoderFalse \<Rightarrow> (case chunk of TextChunk s \<Rightarrow> Inr (s, decoder) | ByteChunk _ \<Rightarrow> Inl TypeError)
            | DecoderNull \<Rightarrow>
                (case chunk of
                   TextChunk s \<Rightarrow> Inr (s, decoder)
                 | ByteChunk bs \<Rightarrow> (case decodeStream P [] bs of (out, h) \<Rightarrow> Inr (out, Decoder h)))
            | Decoder h \<Rightarrow>
                (case chunk of
                   TextChunk s \<Rightarrow> Inl TypeError
                 | ByteChunk bs \<Rightarrow> (case decodeStream P h bs of (out, h') \<Rightarrow> Inr (out, Decoder h')))) of
        Inl e \<Rightarrow> Inl e
      | Inr (out, decoder') \<Rightarrow>
          (case generateFromChunksLoop P decoder' chunks of
             Inl e \<Rightarrow> Inl e
           | Inr rest \<Rightarrow> Inr (out @ rest)))"

definition generateFromChunks :: "platform \<Rightarrow> chunk list \<Rightarrow> error + string" where
  "generateFromChunks P chunks = generateFromChunksLoop P DecoderNull chunks"

text \<open>The two synchronous inputs of \<open>decode\<close>: a string, and an iterable of chunks.\<close>

datatype input = Text string | Chunks "chunk list"

definition decode :: "platform \<Rightarrow> input \<Rightarrow> (error + table) option" where
  "decode P i =
     (case i of
        Text s \<Rightarrow> matchEntries P (generateFrom P (TextChunk s))
      | Chunks chunks \<Rightarrow>
          (case generateFromChunks P chunks of
             Inl e \<Rightarrow> Some (Inl e)
           | Inr characters \<Rightarrow> matchEntries P characters))"


section \<open>The encoder\<close>

datatype valueType = STRING | NUMBER | DATE | KEYWORD | ARRAY | MAP

fun getValueType :: "jsvalue \<Rightarrow> valueType" where
  "getValueType (Scalar (Str _)) = STRING"
| "getValueType (Scalar (Num _)) = NUMBER"
| "getValueType (Scalar (Date _)) = DATE"
| "getValueType (Scalar _) = KEYWORD"
| "getValueType (Arr _) = ARRAY"
| "getValueType (Tab _) = MAP"

text \<open>The encoders return the pieces that \<open>encode\<close> joins at the end.\<close>

definition encodeString :: "string \<Rightarrow> string list" where
  "encodeString s = [[CHR 0x22] @ replaceAll (CHR 0x22) [CHR 0x5C, CHR 0x22] s @ [CHR 0x22]]"

definition encodeNumber :: "platform \<Rightarrow> jsnum \<Rightarrow> string list" where
  "encodeNumber P x =
     (case x of
        Fin r \<Rightarrow> [numberToString P r]
      | NaN \<Rightarrow> [toUpperCase ''NaN'']
      | PosInf \<Rightarrow> [toUpperCase ''Infinity'']
      | NegInf \<Rightarrow> [toUpperCase ''-Infinity''])"

definition showInt :: "int \<Rightarrow> string" where
  "showInt i = (if i < 0 then CHR ''-'' # showNat (nat (- i)) else showNat (nat i))"

text \<open>\<open>num.toString().padStart(size, "0")\<close>.\<close>

definition pad :: "int \<Rightarrow> nat \<Rightarrow> string" where
  "pad num n = replicate (n - length (showInt num)) CHR ''0'' @ showInt num"

definition encodeDate :: "platform \<Rightarrow> int \<Rightarrow> string list" where
  "encodeDate P t =
     (case utcFields P t of
        (year, month0, day, h, minute, s, ms) \<Rightarrow>
          let localDate = showInt year @ ''-'' @ pad (month0 + 1) 2 @ ''-'' @ pad day 2;
              localTime = (if pad ms 3 = ''000''
                           then pad h 2 @ '':'' @ pad minute 2 @ '':'' @ pad s 2
                           else pad h 2 @ '':'' @ pad minute 2 @ '':'' @ pad s 2 @ ''.'' @ pad ms 3);
              minOffset = - timezoneOffset P t;
              hOffset = pad (\<bar>minOffset\<bar> div 60) 2;
              offsetSign = (if minOffset \<ge> 0 then ''+'' else ''-'');
              minOffset' = pad (\<bar>minOffset\<bar> mod 60) 2;
              offset = (if minOffset' = ''00''
                        then offsetSign @ (if take 1 hOffset = ''0'' then take 1 (drop 1 hOffset) else hOffset)
                        else offsetSign @ hOffset @ '':'' @ minOffset')
          in [localDate @ '' '' @ localTime @ '' UTC'' @ offset])"

text \<open>The key of an entry of a table is a string in the model, so the first test of
  \<open>checkKey\<close> passes.\<close>

definition keyChar :: "char \<Rightarrow> bool" where
  "keyChar c \<longleftrightarrow> isLower c \<or> isUpper c \<or> isDigit c \<or> c = CHR ''_'' \<or> c = CHR ''-''"

definition checkKey :: "string \<Rightarrow> error + string" where
  "checkKey key =
     (case find (\<lambda>c. \<not> keyChar c) (trim key) of
        Some c \<Rightarrow>
          Inl (ConfigError (msg ''invalid character '' @ repr 60 [c] @ msg '' in key '' @ repr 60 (trim key)
                 @ msg '' (only letters, digits, '' @ [0xAB, 0x202F] @ msg ''_'' @ [0x202F, 0xBB]
                 @ msg '' and '' @ [0xAB, 0x202F] @ msg ''-'' @ [0x202F, 0xBB] @ msg '' allowed)''))
      | None \<Rightarrow> Inr (trim key))"

text \<open>\<open>result[result.length - 1].pop()\<close>, which the code reaches with a \<open>result\<close> that has an
  entry.\<close>

fun popLast :: "'a list list \<Rightarrow> 'a list list" where
  "popLast [] = []"
| "popLast rs = butlast rs @ [butlast (last rs)]"

definition piecesLength :: "string list \<Rightarrow> nat" where
  "piecesLength xs = sum_list (map length xs)"

text \<open>What \<open>encodeArray\<close> makes of the encoded entries.\<close>

definition formatArray :: "nat \<Rightarrow> string list list \<Rightarrow> string list" where
  "formatArray level result =
     (let len = sum_list (map (\<lambda>entry. piecesLength entry + 2) result)
      in if len = 0 then [''[]'']
         else if level = 1 \<and> len > 80
         then [[CHR ''['', CHR 0x0A]] @ concat (map (\<lambda>entry. [''    ''] @ entry @ [[CHR '','', CHR 0x0A]]) result) @ ['']'']
         else [''[''] @ concat (popLast (map (\<lambda>entry. entry @ ['', '']) result)) @ ['']''])"

text \<open>What \<open>encodeMap\<close> makes of the entries, key checked and value encoded, at the root, in a
  section, and deeper.\<close>

definition formatRootEntry :: "nat \<Rightarrow> string \<times> valueType \<times> string list \<Rightarrow> string list" where
  "formatRootEntry i entry =
     (case entry of
        (key, valueType, v) \<Rightarrow>
          if valueType = MAP
          then (let key' = (if i \<noteq> 0 then [CHR 0x0A] @ ''['' @ key @ '']'' else ''['' @ key @ '']'')
                in if v \<noteq> [] then [key', [CHR 0x0A]] @ v @ [[CHR 0x0A]] else [key', [CHR 0x0A]])
          else [key, '' = ''] @ v @ [[CHR 0x0A]])"

definition formatRoot :: "(string \<times> valueType \<times> string list) list \<Rightarrow> string list" where
  "formatRoot entries = concat (popLast (map (\<lambda>(i, entry). formatRootEntry i entry) (zip [0..<length entries] entries)))"

definition formatSection :: "(string \<times> valueType \<times> string list) list \<Rightarrow> string list" where
  "formatSection entries = concat (popLast (map (\<lambda>(key, _, v). [key, '' = ''] @ v @ [[CHR 0x0A]]) entries))"

definition formatInline :: "nat \<Rightarrow> (string \<times> valueType \<times> string list) list \<Rightarrow> string list" where
  "formatInline level entries =
     (let len = sum_list (map (\<lambda>(key, _, v). length key + piecesLength v + 5) entries)
      in if len = 0 then [''{}'']
         else if level = 2 \<and> len > 80
         then [[CHR ''{'', CHR 0x0A]]
              @ concat (map (\<lambda>(key, _, v). [''    ''] @ map (\<lambda>c. [c]) key @ ['' = ''] @ v @ [[CHR '','', CHR 0x0A]]) entries)
              @ [''}'']
         else [''{ '']
              @ concat (popLast (map (\<lambda>(key, _, v). map (\<lambda>c. [c]) key @ ['' = ''] @ v @ ['', '']) entries))
              @ ['' }''])"

text \<open>The values that are neither arrays nor tables. \<open>undefined\<close> is replaced by \<open>null\<close> before
  the keyword is printed.\<close>

definition encodeScalar :: "platform \<Rightarrow> scalar \<Rightarrow> valueType \<times> string list" where
  "encodeScalar P x =
     (case x of
        Str s \<Rightarrow> (STRING, encodeString s)
      | Num n \<Rightarrow> (NUMBER, encodeNumber P n)
      | Date t \<Rightarrow> (DATE, encodeDate P t)
      | Bool b \<Rightarrow> (KEYWORD, [toUpperCase (if b then ''true'' else ''false'')])
      | Null \<Rightarrow> (KEYWORD, [toUpperCase ''null''])
      | Undefined \<Rightarrow> (KEYWORD, [toUpperCase ''null'']))"

text \<open>
  The encoder on values that are trees. A tree has no value below itself and no value twice,
  so \<open>references\<close> never holds the value at hand; the bookkeeping of \<open>references\<close> is the subject
  of the encoder on object graphs further down. \<open>encodeValues\<close> is the \<open>Array.from\<close> of
  \<open>encodeArray\<close>, \<open>encodeEntries\<close> the \<open>Array.from\<close> of \<open>encodeMap\<close>, which checks the key and then
  encodes the value, entry by entry. The bodies of \<open>encodeArray\<close> and of \<open>encodeMap\<close> above
  level 0 stand in \<open>encodeValue\<close>, where they are called.
\<close>

fun encodeValue :: "platform \<Rightarrow> jsvalue \<Rightarrow> nat \<Rightarrow> bool \<Rightarrow> error + valueType \<times> string list"
  and encodeValues :: "platform \<Rightarrow> jsvalue list \<Rightarrow> nat \<Rightarrow> error + string list list"
  and encodeEntries :: "platform \<Rightarrow> table \<Rightarrow> nat \<Rightarrow> bool \<Rightarrow> error + (string \<times> valueType \<times> string list) list"
where
  "encodeValue P (Scalar x) level levelUpIfNotMap = Inr (encodeScalar P x)"
| "encodeValue P (Arr vs) level levelUpIfNotMap =
     (case encodeValues P vs (level + (if levelUpIfNotMap then 1 else 0)) of
        Inl e \<Rightarrow> Inl e
      | Inr result \<Rightarrow> Inr (ARRAY, formatArray (level + (if levelUpIfNotMap then 1 else 0)) result))"
| "encodeValue P (Tab es) level levelUpIfNotMap =
     (if level + 1 = 1
      then (case encodeEntries P es (level + 1) False of
              Inl e \<Rightarrow> Inl e
            | Inr result \<Rightarrow> Inr (MAP, formatSection result))
      else (case encodeEntries P es (level + 1) True of
              Inl e \<Rightarrow> Inl e
            | Inr result \<Rightarrow> Inr (MAP, formatInline (level + 1) result)))"
| "encodeValues P [] level = Inr []"
| "encodeValues P (v # vs) level =
     (case encodeValue P v level True of
        Inl e \<Rightarrow> Inl e
      | Inr (_, r) \<Rightarrow> (case encodeValues P vs level of Inl e \<Rightarrow> Inl e | Inr rs \<Rightarrow> Inr (r # rs)))"
| "encodeEntries P [] level levelUpIfNotMap = Inr []"
| "encodeEntries P ((key, v) # es) level levelUpIfNotMap =
     (case checkKey key of
        Inl e \<Rightarrow> Inl e
      | Inr key' \<Rightarrow>
          (case encodeValue P v level levelUpIfNotMap of
             Inl e \<Rightarrow> Inl e
           | Inr (valueType, r) \<Rightarrow>
               (case encodeEntries P es level levelUpIfNotMap of
                  Inl e \<Rightarrow> Inl e
                | Inr rs \<Rightarrow> Inr ((key', valueType, r) # rs))))"

definition encodeArray :: "platform \<Rightarrow> jsvalue list \<Rightarrow> nat \<Rightarrow> error + string list" where
  "encodeArray P vs level =
     (case encodeValues P vs level of
        Inl e \<Rightarrow> Inl e
      | Inr result \<Rightarrow> Inr (formatArray level result))"

text \<open>\<open>encodeMap\<close>. At level 0 the entries are grouped first, those whose value is not a table
  before those whose value is one.\<close>

definition encodeMap :: "platform \<Rightarrow> table \<Rightarrow> nat \<Rightarrow> error + string list" where
  "encodeMap P es level =
     (if level = 0
      then (case encodeEntries P (filter (\<lambda>(k, v). getValueType v \<noteq> MAP) es
                                   @ filter (\<lambda>(k, v). getValueType v = MAP) es) level True of
              Inl e \<Rightarrow> Inl e
            | Inr result \<Rightarrow> Inr (formatRoot result))
      else if level = 1
      then (case encodeEntries P es level False of
              Inl e \<Rightarrow> Inl e
            | Inr result \<Rightarrow> Inr (formatSection result))
      else (case encodeEntries P es level True of
              Inl e \<Rightarrow> Inl e
            | Inr result \<Rightarrow> Inr (formatInline level result)))"

definition encode :: "platform \<Rightarrow> table \<Rightarrow> error + string" where
  "encode P d = (case encodeMap P d 0 of Inl e \<Rightarrow> Inl e | Inr pieces \<Rightarrow> Inr (concat pieces))"


section \<open>The encoder on object graphs\<close>

text \<open>
  Arrays and tables are objects with an identity, and \<open>references\<close> is a set of objects. To
  follow it the values are laid out in a store: an object is an address, the store is the list
  of the objects, and a value is a scalar or the address of an object. An address beyond the
  store has no counterpart in JavaScript and is answered with \<open>TypeError\<close>.
\<close>

datatype hvalue = HScalar scalar | HRef nat

datatype hobject = HArr "hvalue list" | HTab "(string \<times> hvalue) list"

type_synonym heap = "hobject list"

definition lookup :: "heap \<Rightarrow> nat \<Rightarrow> hobject option" where
  "lookup heap a = (if a < length heap then Some (heap ! a) else None)"






section \<open>An instance of the platform\<close>

text \<open>
  A platform to instantiate the theorems with. Its \<open>Number\<close> reads the texts made of digits and
  answers NaN to all others, its numbers print as integers, its clock is UTC with every date
  at the epoch, and its decoder is UTF-8 for the code points below 256, with \<open>?\<close> in the place
  of U+FFFD.
\<close>

definition pendingLead :: "byte list \<Rightarrow> byte option" where
  "pendingLead h = (case rev h of [] \<Rightarrow> None | l # _ \<Rightarrow> if l = 0xC2 \<or> l = 0xC3 then Some l else None)"

definition utf8Emit :: "byte list \<Rightarrow> byte \<Rightarrow> string" where
  "utf8Emit h b =
     (let fresh = (if b < 0x80 then [char_of (unat b)] else if b = 0xC2 \<or> b = 0xC3 then [] else ''?'')
      in case pendingLead h of
           None \<Rightarrow> fresh
         | Some l \<Rightarrow> if 0x80 \<le> b \<and> b \<le> 0xBF
                     then [char_of (64 * (unat l mod 4) + unat b mod 64)]
                     else ''?'' @ fresh)"

definition utf8Flush :: "byte list \<Rightarrow> string" where
  "utf8Flush h = (case pendingLead h of None \<Rightarrow> [] | Some _ \<Rightarrow> ''?'')"

definition demoPlatform :: platform where
  "demoPlatform =
     \<lparr> Number = (\<lambda>s. if s \<noteq> [] \<and> list_all isDigit s then Fin (real (digitsValue s)) else NaN),
       numberToString = (\<lambda>r. if r < 0 then CHR ''-'' # showNat (nat \<lfloor>- r\<rfloor>) else showNat (nat \<lfloor>r\<rfloor>)),
       dateLocal = (\<lambda>_. 0),
       dateUTC = (\<lambda>_. 0),
       utcFields = (\<lambda>_. (1970, 0, 1, 0, 0, 0, 0)),
       timezoneOffset = (\<lambda>_. 0),
       decoderEmit = utf8Emit,
       decoderFlush = utf8Flush \<rparr>"

section \<open>Definitions that follow the words of the claims\<close>

text \<open>A value with every \<open>undefined\<close> in it replaced by \<open>null\<close>.\<close>

fun nullifyScalar :: "scalar \<Rightarrow> scalar" where
  "nullifyScalar Undefined = Null"
| "nullifyScalar x = x"

fun nullify :: "jsvalue \<Rightarrow> jsvalue" where
  "nullify (Scalar x) = Scalar (nullifyScalar x)"
| "nullify (Arr vs) = Arr (map nullify vs)"
| "nullify (Tab es) = Tab (map (\<lambda>(k, v). (k, nullify v)) es)"

text \<open>A raw text that holds \<open>-\<close>, \<open>+\<close>, \<open>/\<close>, \<open>:\<close> or one of the letters u, t, c in either case.\<close>

definition dateText :: "string \<Rightarrow> bool" where
  "dateText raw = list_ex (\<lambda>c. c \<in> set ''-+/:'' \<or> toLowerChar c \<in> set ''utc'') raw"

text \<open>The line of an entry, \<open>key = value\<close>, from its key and the pieces of its value.\<close>

definition entryLine :: "string \<times> valueType \<times> string list \<Rightarrow> string" where
  "entryLine e = (case e of (key, _, v) \<Rightarrow> key @ '' = '' @ concat v)"

text \<open>A section of the root: its header, after a newline where a blank line precedes it, and
  its body, if it has one, on the lines that follow.\<close>

definition sectionBlock :: "bool \<Rightarrow> string \<times> valueType \<times> string list \<Rightarrow> string" where
  "sectionBlock blank e =
     (case e of (key, _, v) \<Rightarrow>
        (if blank then [CHR 0x0A] else []) @ ''['' @ key @ '']'' @ (if v = [] then [] else [CHR 0x0A] @ concat v))"

text \<open>The rendering of the root: the lines of the entries that are not tables, then the
  sections, all separated by newlines. A blank line precedes a section unless it is the first
  entry of all.\<close>

definition rootText :: "(string \<times> valueType \<times> string list) list \<Rightarrow> (string \<times> valueType \<times> string list) list \<Rightarrow> string" where
  "rootText scalars sections =
     joinWith [CHR 0x0A]
       (map entryLine scalars
        @ map (\<lambda>(j, e). sectionBlock (scalars \<noteq> [] \<or> j \<noteq> 0) e) (zip [0..<length sections] sections))"

text \<open>The two renderings of a table at level 2 or deeper: on one line, and with one entry
  on each line, indented by four spaces and followed by a comma.\<close>

definition inlineText :: "(string \<times> valueType \<times> string list) list \<Rightarrow> string" where
  "inlineText entries = ''{ '' @ joinWith '', '' (map entryLine entries) @ '' }''"

definition multilineText :: "(string \<times> valueType \<times> string list) list \<Rightarrow> string" where
  "multilineText entries =
     [CHR ''{'', CHR 0x0A] @ concat (map (\<lambda>e. ''    '' @ entryLine e @ [CHR '','', CHR 0x0A]) entries) @ ''}''"

text \<open>
  The graph of a store: an object points to the objects among its elements or among the values
  of its entries. \<open>reachable heap S\<close> are the objects that the objects of \<open>S\<close> lead to, themselves
  included; an object is on a cycle if it leads to itself in one step or more.
\<close>

fun refsOf :: "hvalue list \<Rightarrow> nat list" where
  "refsOf [] = []"
| "refsOf (HScalar _ # vs) = refsOf vs"
| "refsOf (HRef a # vs) = a # refsOf vs"

definition children :: "heap \<Rightarrow> nat \<Rightarrow> nat list" where
  "children heap a =
     (case lookup heap a of
        None \<Rightarrow> []
      | Some (HArr vs) \<Rightarrow> refsOf vs
      | Some (HTab es) \<Rightarrow> refsOf (map snd es))"

definition edges :: "heap \<Rightarrow> (nat \<times> nat) set" where
  "edges heap = {(a, b). b \<in> set (children heap a)}"

definition reachable :: "heap \<Rightarrow> nat set \<Rightarrow> nat set" where
  "reachable heap S = (edges heap)\<^sup>* `` S"












section \<open>Evaluation\<close>

lemmas tokenizer_defs =
  matchKey_def matchString_def matchNumber_def matchKeyword_def matchUntil_def checkMatch_def
  DELIMITERS_def isSpace_def isDigit_def isLower_def isUpper_def trim_def reachedError_def
  looksLikeDate_def toUpperCase_def toUpperChar_def toLowerCase_def toLowerChar_def replaceAll_def
  repr_def msg_def optText_def keywordTable_def char_of_def bit_0

lemmas decode_defs =
  decode_def generateFrom_def matchEntries_def matchEntryValue_def targetSet_def

lemmas date_defs =
  matchDate_def rxExec_def dateRegex_def datePattern_def timePattern_def offsetPattern_def
  cats_def chr_def chrI_def digit_def

section \<open>Undefined values\<close>

lemma nullify_type: "getValueType (nullify v) = getValueType v"
  by (cases v rule: getValueType.cases) simp_all

lemma encodeScalar_nullify: "encodeScalar P (nullifyScalar x) = encodeScalar P x"
  by (cases x) (simp_all add: encodeScalar_def)

lemma encode_nullify_rec:
  "encodeValue P (nullify v) level up = encodeValue P v level up"
  "encodeValues P (map nullify vs) level = encodeValues P vs level"
  "encodeEntries P (map (\<lambda>(k, v). (k, nullify v)) es) level up = encodeEntries P es level up"
  by (induction P v level up and P vs level and P es level up
      rule: encodeValue_encodeValues_encodeEntries.induct)
     (auto simp: encodeScalar_nullify split: sum.splits prod.splits)

lemma filter_nullify:
  "filter (\<lambda>(k, v). Q (getValueType v)) (map (\<lambda>(k, v). (k, nullify v)) es)
     = map (\<lambda>(k, v). (k, nullify v)) (filter (\<lambda>(k, v). Q (getValueType v)) es)"
  by (induction es) (auto simp: nullify_type)

text \<open>
  C10. An entry whose value is \<open>undefined\<close> is encoded as the keyword \<open>NULL\<close>, exactly as an
  entry whose value is \<open>null\<close>, and encoding it does not fail; a document encodes to the same
  result as the document with every \<open>undefined\<close> replaced by \<open>null\<close>.
\<close>

theorem undefined_encodes_as_null:
  "encodeValue P (Scalar Undefined) level up = Inr (KEYWORD, [''NULL''])
   \<and> encodeValue P (Scalar Null) level up = Inr (KEYWORD, [''NULL''])
   \<and> encode P (map (\<lambda>(k, v). (k, nullify v)) d) = encode P d"
proof -
  have "encodeMap P (map (\<lambda>(k, v). (k, nullify v)) d) 0 = encodeMap P d 0"
    unfolding encodeMap_def
    using filter_nullify [of "\<lambda>t. t \<noteq> MAP" d] filter_nullify [of "\<lambda>t. t = MAP" d]
          encode_nullify_rec(3) [of P "filter (\<lambda>(k, v). getValueType v \<noteq> MAP) d
                                         @ filter (\<lambda>(k, v). getValueType v = MAP) d" 0 True]
    by simp
  then show ?thesis
    by (simp add: encode_def encodeScalar_def toUpperCase_def toUpperChar_def isLower_def char_of_def bit_0)
qed

section \<open>The chunk adapter\<close>

text \<open>
  C3. The chunks \<open>["a = ", Uint8Array [0x31]]\<close>: the first chunk is a string, and the second
  chunk is still handed to a decoder. What comes out after the text of the first chunk is
  what the decoder makes of the byte.
\<close>

theorem text_then_bytes_is_decoded:
  "generateFromChunks P [TextChunk ''a = '', ByteChunk [0x31]]
     = Inr (''a = '' @ decoderEmit P [] 0x31 @ decoderFlush P [0x31])"
  by (simp add: generateFromChunks_def)


section \<open>Errors at an entry\<close>





section \<open>Duplicate keys\<close>







section \<open>Numbers and dates\<close>

lemma matchUntil_total:
  "\<exists>raw0 endc rest. matchUntil ds True st cs = Inr ((raw0, endc), rest)"
  by (auto simp: matchUntil_def split: prod.splits option.splits)

lemma toLowerChar_eq_lower:
  assumes "isLower x"
  shows "toLowerChar c = x \<longleftrightarrow> c = x \<or> c = toUpperChar x"
proof -
  have x: "97 \<le> (of_char x :: nat)" "(of_char x :: nat) \<le> 122"
    using assms by (simp_all add: isLower_def)
  have nx: "\<not> isUpper x" using x by (simp add: isUpper_def)
  show ?thesis
  proof (cases "isUpper c")
    case False
    have "c \<noteq> toUpperChar x"
    proof
      assume "c = toUpperChar x"
      then have "c = char_of (of_char x - (32::nat))" by (simp add: toUpperChar_def assms)
      then have "(of_char c :: nat) = (of_char x - 32) mod 256" by simp
      with x have "(of_char c :: nat) = of_char x - 32" by simp
      with x False show False unfolding isUpper_def by arith
    qed
    with False show ?thesis by (simp add: toLowerChar_def)
  next
    case True
    then have c: "65 \<le> (of_char c :: nat)" "(of_char c :: nat) \<le> 90" by (simp_all add: isUpper_def)
    have cx: "c \<noteq> x" using True nx by auto
    have "char_of (of_char c + (32::nat)) = x \<longleftrightarrow> c = char_of (of_char x - (32::nat))"
    proof
      assume "char_of (of_char c + (32::nat)) = x"
      then have "(of_char x :: nat) = (of_char c + 32) mod 256" by auto
      with c have "(of_char x :: nat) = of_char c + 32" by simp
      then have "of_char x - (32::nat) = of_char c" by simp
      then show "c = char_of (of_char x - (32::nat))" by (metis char_of_char)
    next
      assume "c = char_of (of_char x - (32::nat))"
      then have "(of_char c :: nat) = (of_char x - 32) mod 256" by simp
      with x have "(of_char c :: nat) = of_char x - 32" by simp
      with x have "of_char c + (32::nat) = of_char x" by simp
      then show "char_of (of_char c + (32::nat)) = x" by (metis char_of_char)
    qed
    with True cx show ?thesis by (simp add: toLowerChar_def toUpperChar_def assms)
  qed
qed

lemma dateText_looksLikeDate: "dateText raw = looksLikeDate raw"
proof -
  have "\<And>c. (c \<in> set ''-+/:'' \<or> toLowerChar c \<in> set ''utc'') = (c \<in> set ''-+:/utcUTC'')"
    by (auto simp: toLowerChar_eq_lower isLower_def toUpperChar_def char_of_def bit_0)
  then show ?thesis by (simp add: dateText_def looksLikeDate_def)
qed

text \<open>
  C5, amended. Let \<open>raw\<close> be the text that \<open>matchNumber\<close> has accumulated, after the sign is
  dropped and the text trimmed. If \<open>raw\<close> holds \<open>-\<close>, \<open>+\<close>, \<open>/\<close>, \<open>:\<close> or one of the letters u, t, c
  in either case, the result is that of the date parser on \<open>raw\<close>; otherwise the result is a
  number, or the error of an invalid number.
\<close>

theorem number_or_date:
  assumes "matchUntil DELIMITERS True None characters = Inr ((raw0, endc), rest)"
    and "raw = trim ((if start = CHR ''-'' \<or> start = CHR ''+'' then [] else [start]) @ raw0)"
  shows "(dateText raw \<longrightarrow>
            matchNumber P characters start = (case matchDate P raw endc of Inl e \<Rightarrow> Inl e | Inr m \<Rightarrow> Inr (m, rest)))
       \<and> (\<not> dateText raw \<longrightarrow>
            (\<exists>x. matchNumber P characters start = Inr ((Scalar (Num x), endc, VALUE), rest))
            \<or> (\<exists>raw'. matchNumber P characters start = Inl (ConfigError (msg ''number '' @ repr 60 raw' @ msg '' invalid''))))"
  using assms by (auto simp: matchNumber_def dateText_looksLikeDate Let_def)

theorem number_or_date_witness:
  "matchUntil DELIMITERS True None ''2 ,'' = Inr ((''2 '', Some CHR '',''), [])
   \<and> \<not> dateText ''12''
   \<and> matchNumber demoPlatform ''2 ,'' CHR ''1'' = Inr ((Scalar (Num (Fin 12)), Some CHR '','', VALUE), [])
   \<and> matchUntil DELIMITERS True None ''e+5'' = Inr ((''e+5'', None), [])
   \<and> dateText ''1e+5''
   \<and> matchNumber demoPlatform ''e+5'' CHR ''1'' = (case matchDate demoPlatform ''1e+5'' None of Inl e \<Rightarrow> Inl e | Inr m \<Rightarrow> Inr (m, []))"
proof -
  have a: "matchUntil DELIMITERS True None ''2 ,'' = Inr ((''2 '', Some CHR '',''), [])"
    by (simp add: tokenizer_defs)
  have b: "matchUntil DELIMITERS True None ''e+5'' = Inr ((''e+5'', None), [])"
    by (simp add: tokenizer_defs)
  have c: "''12'' = trim ((if CHR ''1'' = CHR ''-'' \<or> CHR ''1'' = CHR ''+'' then [] else [CHR ''1'']) @ ''2 '')"
    by (simp add: tokenizer_defs)
  have d: "''1e+5'' = trim ((if CHR ''1'' = CHR ''-'' \<or> CHR ''1'' = CHR ''+'' then [] else [CHR ''1'']) @ ''e+5'')"
    by (simp add: tokenizer_defs)
  have e: "\<not> dateText ''12''" "dateText ''1e+5''"
    by (simp_all add: dateText_def tokenizer_defs)
  have f: "matchNumber demoPlatform ''2 ,'' CHR ''1'' = Inr ((Scalar (Num (Fin 12)), Some CHR '','', VALUE), [])"
    by (simp add: tokenizer_defs demoPlatform_def digitsValue_def)
  from number_or_date [OF a c, of demoPlatform] number_or_date [OF b d, of demoPlatform] e f a b
  show ?thesis by simp
qed

text \<open>
  C5 as stated fails on \<open>1e+5\<close>: the raw text holds none of \<open>-\<close>, \<open>/\<close>, \<open>:\<close>, u, t, c, and it is
  handed to the date parser, which rejects it.
\<close>

theorem plus_sign_reparsed_as_date:
  "\<not> list_ex (\<lambda>c. c \<in> set ''-/:'' \<or> toLowerChar c \<in> set ''utc'') ''1e+5''
   \<and> matchNumber demoPlatform ''e+5'' CHR ''1''
       = (case matchDate demoPlatform ''1e+5'' None of Inl e \<Rightarrow> Inl e | Inr m \<Rightarrow> Inr (m, []))
   \<and> matchNumber demoPlatform ''e+5'' CHR ''1''
       = Inl (ConfigError (msg ''date '' @ [0xAB, 0x202F] @ msg ''1e+5'' @ [0x202F, 0xBB] @ msg '' invalid''))"
  by (simp add: tokenizer_defs date_defs)

section \<open>Chunks of bytes\<close>

lemma decodeStream_history: "snd (decodeStream P h bs) = h @ bs"
proof (induction bs arbitrary: h)
  case Nil
  then show ?case by simp
next
  case (Cons b bs)
  from Cons [of "h @ [b]"] show ?case
    by (cases "decodeStream P (h @ [b]) bs") simp
qed

lemma decodeStream_pair: "decodeStream P h bs = (fst (decodeStream P h bs), h @ bs)"
  using decodeStream_history [of P h bs] by (simp add: prod_eq_iff)

lemma decodeStream_append_fst:
  "fst (decodeStream P h (a @ b)) = fst (decodeStream P h a) @ fst (decodeStream P (h @ a) b)"
proof (induction a arbitrary: h)
  case Nil
  then show ?case by simp
next
  case (Cons x a)
  from Cons [of "h @ [x]"] show ?case
    by (cases "decodeStream P (h @ [x]) (a @ b)"; cases "decodeStream P (h @ [x]) a") simp
qed

lemma generateFromChunksLoop_bytes:
  "generateFromChunksLoop P (Decoder h) (map ByteChunk chunks)
     = Inr (fst (decodeStream P h (concat chunks)) @ decoderFlush P (h @ concat chunks))"
proof (induction chunks arbitrary: h)
  case Nil
  then show ?case by simp
next
  case (Cons c chunks)
  show ?case
    using decodeStream_history [of P h c]
    by (cases "decodeStream P h c") (simp add: Cons decodeStream_append_fst)
qed

lemma generateFromChunks_bytes:
  assumes "decoderFlush P [] = []"
  shows "generateFromChunks P (map ByteChunk chunks) = Inr (decodeWhole P (concat chunks))"
proof (cases chunks)
  case Nil
  then show ?thesis by (simp add: generateFromChunks_def decodeWhole_def assms)
next
  case (Cons c cs)
  have "generateFromChunks P (map ByteChunk (c # cs))
          = Inr (fst (decodeStream P [] c) @ fst (decodeStream P c (concat cs)) @ decoderFlush P (c @ concat cs))"
    unfolding generateFromChunks_def
    by (simp, subst decodeStream_pair) (simp add: generateFromChunksLoop_bytes)
  moreover have "decodeWhole P (concat (c # cs))
          = fst (decodeStream P [] c) @ fst (decodeStream P c (concat cs)) @ decoderFlush P (c @ concat cs)"
    unfolding decodeWhole_def
    by (subst decodeStream_pair) (simp add: decodeStream_append_fst)
  ultimately show ?thesis by (simp add: Cons)
qed

text \<open>
  C2. Let the platform's decoder turn the bytes, taken whole, into \<open>text\<close>, and let a decoder
  that has been fed nothing hold nothing back. Then however the bytes are cut into chunks,
  the chunk adapter yields the characters of \<open>text\<close>, and decoding the chunks gives what decoding
  \<open>text\<close> gives.
\<close>

theorem chunks_decode_like_text:
  assumes "decoderFlush P [] = []"
    and "decodeWhole P (concat chunks) = text"
  shows "generateFromChunks P (map ByteChunk chunks) = Inr text
       \<and> decode P (Chunks (map ByteChunk chunks)) = decode P (Text text)"
  using generateFromChunks_bytes [OF assms(1), of chunks] assms(2)
  by (simp add: decode_def generateFrom_def)

theorem chunks_decode_like_text_witness:
  "decoderFlush demoPlatform [] = []
   \<and> decodeWhole demoPlatform (concat [[0x6B, 0x20, 0x3D, 0x20, 0x22, 0xC3], [0xA9, 0x22]])
       = [CHR ''k'', CHR '' '', CHR ''='', CHR '' '', CHR 0x22, CHR 0xE9, CHR 0x22]
   \<and> generateFromChunks demoPlatform [ByteChunk [0x6B, 0x20, 0x3D, 0x20, 0x22, 0xC3], ByteChunk [0xA9, 0x22]]
       = Inr [CHR ''k'', CHR '' '', CHR ''='', CHR '' '', CHR 0x22, CHR 0xE9, CHR 0x22]
   \<and> decode demoPlatform (Chunks [ByteChunk [0x6B, 0x20, 0x3D, 0x20, 0x22, 0xC3], ByteChunk [0xA9, 0x22]])
       = Some (Inr [(''k'', Scalar (Str [CHR 0xE9]))])"
proof -
  have f: "decoderFlush demoPlatform [] = []"
    by (simp add: demoPlatform_def utf8Flush_def pendingLead_def)
  have w: "decodeWhole demoPlatform (concat [[0x6B, 0x20, 0x3D, 0x20, 0x22, 0xC3], [0xA9, 0x22]])
             = [CHR ''k'', CHR '' '', CHR ''='', CHR '' '', CHR 0x22, CHR 0xE9, CHR 0x22]"
    by (simp add: decodeWhole_def demoPlatform_def utf8Emit_def utf8Flush_def pendingLead_def char_of_def bit_0)
  have d: "decode demoPlatform (Text [CHR ''k'', CHR '' '', CHR ''='', CHR '' '', CHR 0x22, CHR 0xE9, CHR 0x22])
             = Some (Inr [(''k'', Scalar (Str [CHR 0xE9]))])"
    by (simp add: decode_defs tokenizer_defs match.simps matchEntriesLoop.simps)
  from chunks_decode_like_text [OF f w] f w d show ?thesis by simp
qed

section \<open>Joining pieces\<close>

lemma concat_popLast:
  "concat (concat (popLast (map (\<lambda>x. f x @ [sep]) xs))) = joinWith sep (map (\<lambda>x. concat (f x)) xs)"
proof (induction xs rule: induct_list012)
  case 1
  then show ?case by simp
next
  case (2 x)
  then show ?case by simp
next
  case (3 x y zs)
  then show ?case by (simp add: butlast_append)
qed

lemma encodeEntries_append:
  "encodeEntries P (a @ b) level up
     = (case encodeEntries P a level up of
          Inl e \<Rightarrow> Inl e
        | Inr ra \<Rightarrow> (case encodeEntries P b level up of Inl e \<Rightarrow> Inl e | Inr rb \<Rightarrow> Inr (ra @ rb)))"
  by (induction a) (auto split: sum.splits prod.splits)

lemma encodeValue_type:
  "encodeValue P v level up = Inr (t, r) \<Longrightarrow> t = getValueType v"
  by (cases v rule: getValueType.cases) (auto simp: encodeScalar_def split: sum.splits if_splits)

lemma encodeEntries_types:
  "encodeEntries P es level up = Inr rs \<Longrightarrow> map (\<lambda>(k, t, r). t) rs = map (\<lambda>(k, v). getValueType v) es"
proof (induction es arbitrary: rs)
  case Nil
  then show ?case by simp
next
  case (Cons e es)
  then show ?case
    by (cases e) (auto split: sum.splits prod.splits dest: encodeValue_type)
qed

lemma encodeEntries_filter_types:
  assumes "encodeEntries P (filter (\<lambda>(k, v). Q (getValueType v)) es) level up = Inr rs"
  shows "list_all (\<lambda>(k, t, r). Q t) rs"
proof -
  have "map (\<lambda>(k, t, r). t) rs = map (\<lambda>(k, v). getValueType v) (filter (\<lambda>(k, v). Q (getValueType v)) es)"
    using encodeEntries_types [OF assms] .
  then have "list_all Q (map (\<lambda>(k, t, r). t) rs)"
    by (auto simp: list_all_iff)
  then show ?thesis by (simp add: list_all_iff case_prod_beta)
qed

lemma formatRoot_text:
  assumes "list_all (\<lambda>(k, t, r). t \<noteq> MAP) rs" and "list_all (\<lambda>(k, t, r). t = MAP) rt"
  shows "concat (formatRoot (rs @ rt)) = rootText rs rt"
proof -
  let ?body = "\<lambda>(i, e). case e of (key, valueType, v) \<Rightarrow>
                 if valueType = MAP
                 then (if v \<noteq> [] then [(if i \<noteq> 0 then [CHR 0x0A] @ ''['' @ key @ '']'' else ''['' @ key @ '']''), [CHR 0x0A]] @ v
                       else [(if i \<noteq> 0 then [CHR 0x0A] @ ''['' @ key @ '']'' else ''['' @ key @ '']'')])
                 else [key, '' = ''] @ v"
  have f: "(\<lambda>(i, entry). formatRootEntry i entry) = (\<lambda>x. ?body x @ [[CHR 0x0A]])"
    by (auto simp: formatRootEntry_def fun_eq_iff Let_def)
  have z: "zip [0..<length (rs @ rt)] (rs @ rt)
             = zip [0..<length rs] rs @ zip [length rs..<length rs + length rt] rt"
    by (simp add: upt_add_eq_append [of 0 "length rs" "length rt", simplified] zip_append)
  have s: "map (\<lambda>x. concat (?body x)) (zip [0..<length rs] rs) = map entryLine rs"
    using assms(1)
    by (intro nth_equalityI) (auto simp: entryLine_def list_all_length split: prod.splits)
  have "map (\<lambda>x. concat (?body x)) (zip [length rs..<length rs + length rt] rt) ! j
          = map (\<lambda>(j, e). sectionBlock (rs \<noteq> [] \<or> j \<noteq> 0) e) (zip [0..<length rt] rt) ! j"
    if "j < length rt" for j
    using assms(2) that
    by (auto simp: sectionBlock_def list_all_length split: prod.splits)
  then have t: "map (\<lambda>x. concat (?body x)) (zip [length rs..<length rs + length rt] rt)
             = map (\<lambda>(j, e). sectionBlock (rs \<noteq> [] \<or> j \<noteq> 0) e) (zip [0..<length rt] rt)"
    by (intro nth_equalityI) simp_all
  show ?thesis
    unfolding formatRoot_def rootText_def f concat_popLast z
    by (simp add: s t)
qed

text \<open>
  C6, amended. At the root the entries whose value is not a table are rendered first, one
  line each, and the sections after them, whatever the order of insertion; the lines and the
  sections are separated by a newline. A section starts with its header, and the header is
  preceded by a blank line unless the section is the very first entry of the rendering:
  a first section that follows a line of the root has a blank line before its header too.
\<close>

theorem root_groups_scalars_before_sections:
  assumes "encodeEntries P (filter (\<lambda>(k, v). getValueType v \<noteq> MAP) d) 0 True = Inr rs"
    and "encodeEntries P (filter (\<lambda>(k, v). getValueType v = MAP) d) 0 True = Inr rt"
  shows "encode P d = Inr (rootText rs rt)"
  using formatRoot_text [OF encodeEntries_filter_types [of P "\<lambda>t. t \<noteq> MAP" d 0 True rs]
                            encodeEntries_filter_types [of P "\<lambda>t. t = MAP" d 0 True rt]] assms
  by (simp add: encode_def encodeMap_def encodeEntries_append)

lemmas encoder_defs =
  encode_def encodeMap_def encodeArray_def encodeScalar_def encodeString_def encodeNumber_def checkKey_def keyChar_def
  formatRoot_def formatRootEntry_def formatSection_def formatInline_def formatArray_def piecesLength_def
  trim_def isSpace_def isDigit_def isLower_def isUpper_def toUpperCase_def toUpperChar_def replaceAll_def
  char_of_def bit_0

theorem root_groups_scalars_before_sections_witness:
  "encodeEntries demoPlatform (filter (\<lambda>(k, v). getValueType v \<noteq> MAP)
       [(''s'', Tab [(''y'', Scalar Null)]), (''x'', Scalar (Bool True)), (''t'', Tab [])]) 0 True
     = Inr [(''x'', KEYWORD, [''TRUE''])]
   \<and> encodeEntries demoPlatform (filter (\<lambda>(k, v). getValueType v = MAP)
       [(''s'', Tab [(''y'', Scalar Null)]), (''x'', Scalar (Bool True)), (''t'', Tab [])]) 0 True
     = Inr [(''s'', MAP, [''y'', '' = '', ''NULL'']), (''t'', MAP, [])]
   \<and> encode demoPlatform [(''s'', Tab [(''y'', Scalar Null)]), (''x'', Scalar (Bool True)), (''t'', Tab [])]
     = Inr ''x = TRUE\<newline>\<newline>[s]\<newline>y = NULL\<newline>\<newline>[t]''"
proof -
  have a: "encodeEntries demoPlatform (filter (\<lambda>(k, v). getValueType v \<noteq> MAP)
       [(''s'', Tab [(''y'', Scalar Null)]), (''x'', Scalar (Bool True)), (''t'', Tab [])]) 0 True
     = Inr [(''x'', KEYWORD, [''TRUE''])]"
    by (simp add: encoder_defs)
  have b: "encodeEntries demoPlatform (filter (\<lambda>(k, v). getValueType v = MAP)
       [(''s'', Tab [(''y'', Scalar Null)]), (''x'', Scalar (Bool True)), (''t'', Tab [])]) 0 True
     = Inr [(''s'', MAP, [''y'', '' = '', ''NULL'']), (''t'', MAP, [])]"
    by (simp add: encoder_defs)
  from root_groups_scalars_before_sections [OF a b] a b show ?thesis
    by (simp add: rootText_def entryLine_def sectionBlock_def)
qed

text \<open>
  C6 as stated fails on the root \<open>x = true\<close>, \<open>s = {}\<close>: \<open>s\<close> is the first section, and a blank
  line precedes its header.
\<close>

theorem blank_line_before_first_section:
  "encode demoPlatform [(''x'', Scalar (Bool True)), (''s'', Tab [])] = Inr ''x = TRUE\<newline>\<newline>[s]''"
  by (simp add: encoder_defs)


section \<open>The width of an inline table\<close>

lemma length_joinWith:
  "xs \<noteq> [] \<Longrightarrow> length (joinWith sep xs) + length sep = sum_list (map (\<lambda>x. length x + length sep) xs)"
  by (induction xs rule: induct_list012) simp_all

lemma length_entryLine: "length (entryLine (k, t, v)) = length k + piecesLength v + 3"
  by (simp add: entryLine_def piecesLength_def length_concat)

lemma length_inlineText:
  assumes "r \<noteq> []"
  shows "length (inlineText r) = sum_list (map (\<lambda>(key, _, v). length key + piecesLength v + 5) r) + 2"
proof -
  have "(\<lambda>x. length (entryLine x) + 2) = (\<lambda>(key, _, v). length key + piecesLength v + 5)"
    by (auto simp: fun_eq_iff length_entryLine)
  then have "length (joinWith '', '' (map entryLine r)) + 2
               = sum_list (map (\<lambda>(key, _, v). length key + piecesLength v + 5) r)"
    using length_joinWith [of "map entryLine r" "'', ''"] assms by (simp add: comp_def)
  then show ?thesis by (simp add: inlineText_def)
qed

lemma concat_key: "concat (map (\<lambda>c. [c]) key) = key"
  by (induction key) simp_all

lemma inline_pieces:
  "concat ([''{ ''] @ concat (popLast (map (\<lambda>(key, _, v). map (\<lambda>c. [c]) key @ ['' = ''] @ v @ ['', '']) r)) @ ['' }''])
     = inlineText r"
proof -
  have a: "(\<lambda>(key, _, v). map (\<lambda>c. [c]) key @ ['' = ''] @ v @ ['', ''])
          = (\<lambda>x. (case x of (key, _, v) \<Rightarrow> map (\<lambda>c. [c]) key @ ['' = ''] @ v) @ ['', ''])"
    by (auto simp: fun_eq_iff)
  have b: "(\<lambda>x. concat (case x of (key, _, v) \<Rightarrow> map (\<lambda>c. [c]) key @ ['' = ''] @ v)) = entryLine"
    by (auto simp: fun_eq_iff entryLine_def concat_key)
  have "concat (concat (popLast (map (\<lambda>(key, _, v). map (\<lambda>c. [c]) key @ ['' = ''] @ v @ ['', '']) r)))
          = joinWith '', '' (map entryLine r)"
    by (simp only: a concat_popLast b)
  then show ?thesis
    by (simp add: inlineText_def)
qed

lemma multiline_pieces:
  "concat ([[CHR ''{'', CHR 0x0A]]
           @ concat (map (\<lambda>(key, _, v). [''    ''] @ map (\<lambda>c. [c]) key @ ['' = ''] @ v @ [[CHR '','', CHR 0x0A]]) r)
           @ [''}''])
     = multilineText r"
proof -
  have "concat (concat (map (\<lambda>(key, _, v). [''    ''] @ map (\<lambda>c. [c]) key @ ['' = ''] @ v @ [[CHR '','', CHR 0x0A]]) r))
          = concat (map (\<lambda>e. ''    '' @ entryLine e @ [CHR '','', CHR 0x0A]) r)"
    by (induction r) (auto simp: entryLine_def concat_key)
  then show ?thesis by (simp add: multilineText_def)
qed

text \<open>
  C4, amended. A table at level 2 or deeper that has an entry is rendered on one line,
  \<open>inlineText\<close>, or with one entry on each line, \<open>multilineText\<close>. At level 2 it is rendered on
  several lines when the single line would be longer than 82 characters and on one line when
  the single line has at most 80; deeper than level 2 it is always rendered on one line.
\<close>

theorem inline_table_width:
  assumes "2 \<le> level" and "encodeEntries P es level True = Inr r" and "r \<noteq> []"
  shows "\<exists>pieces. encodeMap P es level = Inr pieces
           \<and> (level = 2 \<and> 82 < length (inlineText r) \<longrightarrow> concat pieces = multilineText r)
           \<and> (2 < level \<or> length (inlineText r) \<le> 80 \<longrightarrow> concat pieces = inlineText r)"
proof -
  let ?len = "sum_list (map (\<lambda>(key, _, v). length key + piecesLength v + 5) r)"
  have len: "length (inlineText r) = ?len + 2"
    using assms(3) by (rule length_inlineText)
  have pos: "?len \<noteq> 0"
    using assms(3) by (cases r) auto
  have m: "encodeMap P es level = Inr (formatInline level r)"
    using assms(1,2) by (simp add: encodeMap_def)
  have "level = 2 \<and> 82 < length (inlineText r) \<longrightarrow> concat (formatInline level r) = multilineText r"
    using len pos multiline_pieces [of r] by (auto simp: formatInline_def Let_def)
  moreover have "2 < level \<or> length (inlineText r) \<le> 80 \<longrightarrow> concat (formatInline level r) = inlineText r"
    using len pos inline_pieces [of r] by (auto simp: formatInline_def Let_def)
  ultimately show ?thesis using m by simp
qed

theorem inline_table_width_witness:
  "(2::nat) \<le> 2
   \<and> encodeEntries demoPlatform [(''k'', Scalar (Str ''xxxxxxxxxxxxxxxxxxxxxxxxxxxxxxxxxxxxxxxxxxxxxxxxxxxxxxxxxxxxxxxxxxxxxxxxxxxxxxxx''))] 2 True
       = Inr [(''k'', STRING, [[CHR 0x22] @ ''xxxxxxxxxxxxxxxxxxxxxxxxxxxxxxxxxxxxxxxxxxxxxxxxxxxxxxxxxxxxxxxxxxxxxxxxxxxxxxxx'' @ [CHR 0x22]])]
   \<and> 82 < length (inlineText [(''k'', STRING, [[CHR 0x22] @ ''xxxxxxxxxxxxxxxxxxxxxxxxxxxxxxxxxxxxxxxxxxxxxxxxxxxxxxxxxxxxxxxxxxxxxxxxxxxxxxxx'' @ [CHR 0x22]])])
   \<and> map_sum id concat (encodeMap demoPlatform [(''k'', Scalar (Str ''xxxxxxxxxxxxxxxxxxxxxxxxxxxxxxxxxxxxxxxxxxxxxxxxxxxxxxxxxxxxxxxxxxxxxxxxxxxxxxxx''))] 2)
       = Inr ([CHR ''{'', CHR 0x0A] @ ''    k = '' @ [CHR 0x22] @ ''xxxxxxxxxxxxxxxxxxxxxxxxxxxxxxxxxxxxxxxxxxxxxxxxxxxxxxxxxxxxxxxxxxxxxxxxxxxxxxxx'' @ [CHR 0x22, CHR '','', CHR 0x0A] @ ''}'')"
proof -
  have e: "encodeEntries demoPlatform [(''k'', Scalar (Str ''xxxxxxxxxxxxxxxxxxxxxxxxxxxxxxxxxxxxxxxxxxxxxxxxxxxxxxxxxxxxxxxxxxxxxxxxxxxxxxxx''))] 2 True
             = Inr [(''k'', STRING, [[CHR 0x22] @ ''xxxxxxxxxxxxxxxxxxxxxxxxxxxxxxxxxxxxxxxxxxxxxxxxxxxxxxxxxxxxxxxxxxxxxxxxxxxxxxxx'' @ [CHR 0x22]])]"
    by (simp add: encoder_defs)
  have l: "82 < length (inlineText [(''k'', STRING, [[CHR 0x22] @ ''xxxxxxxxxxxxxxxxxxxxxxxxxxxxxxxxxxxxxxxxxxxxxxxxxxxxxxxxxxxxxxxxxxxxxxxxxxxxxxxx'' @ [CHR 0x22]])])"
    by (simp add: inlineText_def entryLine_def)
  from inline_table_width [OF _ e, of] l e show ?thesis
    by (auto simp: multilineText_def entryLine_def)
qed

text \<open>
  C4 as stated fails twice. At level 3 a table whose single line has 90 characters stays on
  one line; at level 2 a table whose single line has exactly 81 characters stays on one line.
\<close>

theorem wide_tables_that_stay_inline:
  "encodeMap demoPlatform [(''k'', Scalar (Str ''xxxxxxxxxxxxxxxxxxxxxxxxxxxxxxxxxxxxxxxxxxxxxxxxxxxxxxxxxxxxxxxxxxxxxxxxxxxxxxxx''))] 3
     = Inr [''{ '', ''k'', '' = '', [CHR 0x22] @ ''xxxxxxxxxxxxxxxxxxxxxxxxxxxxxxxxxxxxxxxxxxxxxxxxxxxxxxxxxxxxxxxxxxxxxxxxxxxxxxxx'' @ [CHR 0x22], '' }'']
   \<and> length (concat [''{ '', ''k'', '' = '', [CHR 0x22] @ ''xxxxxxxxxxxxxxxxxxxxxxxxxxxxxxxxxxxxxxxxxxxxxxxxxxxxxxxxxxxxxxxxxxxxxxxxxxxxxxxx'' @ [CHR 0x22], '' }'']) = 90
   \<and> encodeMap demoPlatform [(''k'', Scalar (Str ''xxxxxxxxxxxxxxxxxxxxxxxxxxxxxxxxxxxxxxxxxxxxxxxxxxxxxxxxxxxxxxxxxxxxxxx''))] 2
     = Inr [''{ '', ''k'', '' = '', [CHR 0x22] @ ''xxxxxxxxxxxxxxxxxxxxxxxxxxxxxxxxxxxxxxxxxxxxxxxxxxxxxxxxxxxxxxxxxxxxxxx'' @ [CHR 0x22], '' }'']
   \<and> length (concat [''{ '', ''k'', '' = '', [CHR 0x22] @ ''xxxxxxxxxxxxxxxxxxxxxxxxxxxxxxxxxxxxxxxxxxxxxxxxxxxxxxxxxxxxxxxxxxxxxxx'' @ [CHR 0x22], '' }'']) = 81"
  by (simp add: encoder_defs)

section \<open>Cycles\<close>






lemma reachable_insert: "reachable heap (insert a A) = reachable heap {a} \<union> reachable heap A"
  by (auto simp: reachable_def)




























end
